theory Spec2Isabelle
  imports Complex_Main "HOL-Library.Sublist"
begin

section \<open>Semi-implicit BDF/EXT time stepping (hydrogym, \<open>firedrake/solvers/bdf_ext.py\<close>)\<close>

text \<open>
  A shallow embedding of the class \<open>SemiImplicitBDF\<close>. Python integers are \<open>int\<close>.
  The float literals and quotients of the coefficient tables are read as the real numbers
  they denote (\<open>11.0 / 6.0\<close> is \<open>11 / 6\<close>); the rounding of \<open>1/3\<close> and \<open>11/6\<close> to a double
  is not part of the model. Every exception of the source is a value of \<open>error\<close>.
\<close>

subsection \<open>Exceptions and Python list indexing\<close>

datatype error =
    IndexError
  | AttributeError
  | AssertionError string
  | ValueError string
  | LinearSolveError string

text \<open>
  \<open>xs[i]\<close>: an index from \<open>0\<close> to \<open>len(xs) - 1\<close> reads from the front, an index from
  \<open>-len(xs)\<close> to \<open>-1\<close> reads from the back, anything else raises \<open>IndexError\<close>.
\<close>

definition py_position :: "'a list \<Rightarrow> int \<Rightarrow> error + nat" where
  "py_position xs i =
     (if 0 \<le> i \<and> i < int (length xs) then Inr (nat i)
      else if i < 0 \<and> - int (length xs) \<le> i then Inr (nat (int (length xs) + i))
      else Inl IndexError)"

definition py_index :: "'a list \<Rightarrow> int \<Rightarrow> error + 'a" where
  "py_index xs i = (case py_position xs i of Inl e \<Rightarrow> Inl e | Inr p \<Rightarrow> Inr (xs ! p))"

text \<open>\<open>sum(...)\<close> over a generator: the items are added to \<open>0\<close> from the left.\<close>

definition py_sum :: "'u::real_vector list \<Rightarrow> 'u" where
  "py_sum xs = foldl (+) 0 xs"

subsection \<open>Coefficient tables (lines 8 to 18)\<close>

definition alpha_BDF :: "real list" where
  "alpha_BDF = [1, 3 / 2, 11 / 6]"

definition beta_BDF :: "real list list" where
  "beta_BDF = [[1], [2, - 1 / 2], [3, - 3 / 2, 1 / 3]]"

definition beta_EXT :: "real list list" where
  "beta_EXT = [[1], [2, - 1], [3, - 3, 1]]"

text \<open>
  The table lookup of \<open>_make_order_k_solver\<close> (lines 74 to 78): \<open>k_idx = k - 1\<close>, then
  \<open>_beta_EXT[k_idx]\<close>, \<open>_beta_BDF[k_idx]\<close> and \<open>_alpha_BDF[k_idx]\<close>, in that order. The result
  is the triple \<open>(alpha, beta_BDF row, beta_EXT row)\<close>.
\<close>

definition order_k_coefficients :: "int \<Rightarrow> error + (real \<times> real list \<times> real list)" where
  "order_k_coefficients k =
     (let k_idx = k - 1 in
      case py_index beta_EXT k_idx of
        Inl e \<Rightarrow> Inl e
      | Inr ext \<Rightarrow>
          (case py_index beta_BDF k_idx of
             Inl e \<Rightarrow> Inl e
           | Inr bdf \<Rightarrow>
               (case py_index alpha_BDF k_idx of
                  Inl e \<Rightarrow> Inl e
                | Inr a \<Rightarrow> Inr (a, bdf, ext))))"

subsection \<open>Sub-solvers (\<open>_make_order_k_solver\<close>, lines 65 to 147)\<close>

text \<open>
  A sub-solver keeps the coefficients it was built from; \<open>sol_order\<close> records the argument
  \<open>k\<close> of \<open>_make_order_k_solver\<close>. Its wind and its BDF combination are symbolic
  expressions over the history functions \<open>self.u_prev\<close>, so their values are those of the
  history at the time of the solve:
  \<open>sum(beta * u_n for beta, u_n in zip(row, self.u_prev))\<close>.
\<close>

record sub_solver =
  sol_order :: int
  sol_alpha :: real
  sol_beta_BDF :: "real list"
  sol_beta_EXT :: "real list"

definition make_order_k_solver :: "int \<Rightarrow> error + sub_solver" where
  "make_order_k_solver k =
     (case order_k_coefficients k of
        Inl e \<Rightarrow> Inl e
      | Inr (a, bdf, ext) \<Rightarrow>
          Inr \<lparr>sol_order = k, sol_alpha = a, sol_beta_BDF = bdf, sol_beta_EXT = ext\<rparr>)"

definition combination :: "real list \<Rightarrow> 'u::real_vector list \<Rightarrow> 'u" where
  "combination row us = py_sum (map2 (\<lambda>beta u_n. beta *\<^sub>R u_n) row us)"

text \<open>The wind and the BDF combination of the order-\<open>k\<close> sub-solver over a history.\<close>

definition wind :: "int \<Rightarrow> 'u::real_vector list \<Rightarrow> error + 'u" where
  "wind k us =
     (case make_order_k_solver k of
        Inl e \<Rightarrow> Inl e
      | Inr sol \<Rightarrow> Inr (combination (sol_beta_EXT sol) us))"

definition bdf_estimate :: "int \<Rightarrow> 'u::real_vector list \<Rightarrow> error + 'u" where
  "bdf_estimate k us =
     (case make_order_k_solver k of
        Inl e \<Rightarrow> Inl e
      | Inr sol \<Rightarrow> Inr (combination (sol_beta_BDF sol) us))"

subsection \<open>The Domain Model and the external collaborators\<close>

text \<open>
  Modelled from the spec: the class \<open>FlowConfig\<close> (module \<open>..flow\<close>) is not part of the
  sources at hand. The Domain Model holds the mixed state \<open>q\<close> (velocity and pressure;
  \<open>q.subfunctions[0]\<close> is the velocity), the actuator states, and the boundary-condition
  scale. \<open>update_actuators(control, dt)\<close> advances the actuator states and returns a
  boundary-condition scale; \<open>set_control\<close> applies that scale.
\<close>

record ('u, 'p, 'a, 'b) flow_config =
  flow_q :: "'u \<times> 'p"
  flow_actuators :: 'a
  flow_control :: 'b

text \<open>
  What the solve sees of a sub-solver: \<open>alpha_k\<close>, the wind \<open>w\<close>, \<open>u_BDF\<close>, the step
  \<open>h\<close> and the forcing scale \<open>eta\<close>, as in
  \<open>u_t = (alpha_k * u - u_BDF) / h\<close> and \<open>dot(self.eta * self.f, v)\<close>.
\<close>

record 'u weak_form =
  wf_alpha :: real
  wf_w :: 'u
  wf_u_BDF :: 'u
  wf_h :: real
  wf_eta :: real

text \<open>
  The external collaborators. \<open>fe_solve\<close> is \<open>LinearVariationalSolver.solve()\<close>: it
  reads the form and the Domain Model and writes \<open>q\<close>; it returns the content of \<open>q\<close>
  after the call, and a message when it raises. \<open>actuator_dynamics\<close> is the actuator
  filter behind \<open>update_actuators\<close>.
\<close>

record ('u, 'p, 'a, 'b, 'c) collaborators =
  fe_solve :: "'u weak_form \<Rightarrow> ('u, 'p, 'a, 'b) flow_config \<Rightarrow> string option \<times> ('u \<times> 'p)"
  actuator_dynamics :: "'c \<Rightarrow> real \<Rightarrow> 'a \<Rightarrow> 'b \<times> 'a"

definition update_actuators ::
  "('u, 'p, 'a, 'b, 'c) collaborators \<Rightarrow> 'c \<Rightarrow> real \<Rightarrow> ('u, 'p, 'a, 'b) flow_config
     \<Rightarrow> 'b \<times> ('u, 'p, 'a, 'b) flow_config" where
  "update_actuators env c h fl =
     (case actuator_dynamics env c h (flow_actuators fl) of
        (bc_scale, a) \<Rightarrow> (bc_scale, fl\<lparr>flow_actuators := a\<rparr>))"

definition set_control :: "'b \<Rightarrow> ('u, 'p, 'a, 'b) flow_config \<Rightarrow> ('u, 'p, 'a, 'b) flow_config" where
  "set_control bc_scale fl = fl\<lparr>flow_control := bc_scale\<rparr>"

subsection \<open>The state of the solver\<close>

text \<open>
  The attributes of a \<open>SemiImplicitBDF\<close> object. \<open>self.flow\<close> is a handle to the Domain
  Model, which the caller owns; \<open>store\<close> is the memory the handles point into.
  \<open>self_petsc_solver\<close> is \<open>None\<close> until \<open>initialize_operators\<close> sets the attribute.
  The history functions \<open>self.u_prev\<close> are distinct objects written with \<open>assign\<close>, which
  copies values: the history is a list of values.
\<close>

type_synonym handle = nat

record ('u, 'p, 'a, 'b) solver =
  self_k :: int
  self_dt :: real
  self_t :: real
  self_eta :: real
  self_noise :: "real list"
  self_noise_idx :: int
  self_u_prev :: "'u list"
  self_petsc_solver :: "sub_solver option"
  self_startup_solvers :: "sub_solver list"
  self_flow :: handle
  store :: "handle \<Rightarrow> ('u, 'p, 'a, 'b) flow_config"

subsection \<open>\<open>initialize_functions\<close> (lines 45 to 63)\<close>

text \<open>\<open>k\<close> fresh history functions, each assigned the current velocity.\<close>

definition seed_history :: "int \<Rightarrow> 'u \<Rightarrow> 'u list" where
  "seed_history k x = replicate (nat k) x"

definition initialize_functions :: "('u, 'p, 'a, 'b) solver \<Rightarrow> ('u, 'p, 'a, 'b) solver" where
  "initialize_functions s =
     s\<lparr>self_u_prev := seed_history (self_k s) (fst (flow_q (store s (self_flow s))))\<rparr>"

subsection \<open>\<open>initialize_operators\<close> (lines 149 to 157)\<close>

text \<open>
  \<open>self.flow.init_bcs(mixed=True)\<close> sets up the boundary conditions of the Domain Model,
  which the model does not keep. The start-up solvers are appended for \<open>i\<close> in
  \<open>range(k - 1)\<close>, each of order \<open>i + 1\<close>.
\<close>

fun append_startup_solvers :: "int list \<Rightarrow> sub_solver list \<Rightarrow> error + sub_solver list" where
  "append_startup_solvers [] acc = Inr acc"
| "append_startup_solvers (i # rest) acc =
     (case make_order_k_solver (i + 1) of
        Inl e \<Rightarrow> Inl e
      | Inr sol \<Rightarrow> append_startup_solvers rest (acc @ [sol]))"

definition initialize_operators ::
  "('u, 'p, 'a, 'b) solver \<Rightarrow> error + ('u, 'p, 'a, 'b) solver" where
  "initialize_operators s =
     (case make_order_k_solver (self_k s) of
        Inl e \<Rightarrow> Inl e
      | Inr sol \<Rightarrow>
          (let s1 = s\<lparr>self_petsc_solver := Some sol\<rparr>;
               s2 = s1\<lparr>self_startup_solvers := []\<rparr>
           in if self_k s2 > 1
              then (case append_startup_solvers [0 .. self_k s2 - 1 - 1] (self_startup_solvers s2) of
                      Inl e \<Rightarrow> Inl e
                    | Inr sols \<Rightarrow> Inr (s2\<lparr>self_startup_solvers := sols\<rparr>))
              else Inr s2))"

subsection \<open>\<open>step\<close> (lines 159 to 184)\<close>

text \<open>
  Lines 169 to 172: \<open>self.petsc_solver\<close> when \<open>iter > self.k - 1\<close>, else
  \<open>self.startup_solvers[iter - 1]\<close>.
\<close>

definition select_solver :: "int \<Rightarrow> ('u, 'p, 'a, 'b) solver \<Rightarrow> error + sub_solver" where
  "select_solver iter s =
     (if iter > self_k s - 1
      then (case self_petsc_solver s of None \<Rightarrow> Inl AttributeError | Some sol \<Rightarrow> Inr sol)
      else py_index (self_startup_solvers s) (iter - 1))"

text \<open>
  The solve of a sub-solver: the form is evaluated on the current history, step and
  forcing scale; the collaborator writes \<open>q\<close> of the Domain Model behind \<open>self.flow\<close>.
\<close>

definition sub_solver_solve ::
  "('u::real_vector, 'p, 'a, 'b, 'c) collaborators \<Rightarrow> sub_solver \<Rightarrow> ('u, 'p, 'a, 'b) solver
     \<Rightarrow> string option \<times> ('u, 'p, 'a, 'b) solver" where
  "sub_solver_solve env sol s =
     (let fl = store s (self_flow s);
          form = \<lparr>wf_alpha = sol_alpha sol,
                  wf_w = combination (sol_beta_EXT sol) (self_u_prev s),
                  wf_u_BDF = combination (sol_beta_BDF sol) (self_u_prev s),
                  wf_h = self_dt s,
                  wf_eta = self_eta s\<rparr>
      in case fe_solve env form fl of
           (r, q') \<Rightarrow> (r, s\<lparr>store := (store s)(self_flow s := fl\<lparr>flow_q := q'\<rparr>)\<rparr>))"

text \<open>
  Lines 175 and 176, for \<open>i\<close> in \<open>range(k - 1)\<close>:
  \<open>u_prev[-(i + 1)].assign(u_prev[-(i + 2)])\<close>. The list is returned as it is at the
  moment an index is out of range.
\<close>

fun shift_history :: "int list \<Rightarrow> 'u list \<Rightarrow> error option \<times> 'u list" where
  "shift_history [] us = (None, us)"
| "shift_history (i # rest) us =
     (case py_position us (- (i + 1)) of
        Inl e \<Rightarrow> (Some e, us)
      | Inr dst \<Rightarrow>
          (case py_index us (- (i + 2)) of
             Inl e \<Rightarrow> (Some e, us)
           | Inr v \<Rightarrow> shift_history rest (us[dst := v])))"

text \<open>Lines 175 to 178: the shift, then \<open>u_prev[0].assign(y)\<close>.\<close>

definition rotate_history :: "int \<Rightarrow> 'u \<Rightarrow> 'u list \<Rightarrow> error option \<times> 'u list" where
  "rotate_history k y us =
     (case shift_history [0 .. k - 1 - 1] us of
        (Some e, us') \<Rightarrow> (Some e, us')
      | (None, us') \<Rightarrow>
          (case py_position us' 0 of
             Inl e \<Rightarrow> (Some e, us')
           | Inr dst \<Rightarrow> (None, us'[dst := y])))"

text \<open>
  Lines 164 to 166: with a control input, \<open>bc_scale = self.flow.update_actuators(control,
  self.dt)\<close> and \<open>self.flow.set_control(bc_scale)\<close>, both on the Domain Model behind
  \<open>self.flow\<close>.
\<close>

definition apply_control ::
  "('u, 'p, 'a, 'b, 'c) collaborators \<Rightarrow> 'c option \<Rightarrow> ('u, 'p, 'a, 'b) solver
     \<Rightarrow> ('u, 'p, 'a, 'b) solver" where
  "apply_control env control s =
     (case control of
        None \<Rightarrow> s
      | Some c \<Rightarrow>
          (case update_actuators env c (self_dt s) (store s (self_flow s)) of
             (bc_scale, fl) \<Rightarrow> s\<lparr>store := (store s)(self_flow s := set_control bc_scale fl)\<rparr>))"

text \<open>
  A step returns the handle \<open>self.flow\<close>, or the exception it raised, together with the
  state it leaves behind.
\<close>

definition step ::
  "('u::real_vector, 'p, 'a, 'b, 'c) collaborators \<Rightarrow> int \<Rightarrow> 'c option \<Rightarrow> ('u, 'p, 'a, 'b) solver
     \<Rightarrow> (error + handle) \<times> ('u, 'p, 'a, 'b) solver" where
  "step env iter control s =
     (case py_index (self_noise s) (self_noise_idx s) of
        Inl e \<Rightarrow> (Inl e, s)
      | Inr sample \<Rightarrow>
          (let s1 = s\<lparr>self_eta := sample\<rparr>;
               s2 = apply_control env control s1
           in case select_solver iter s2 of
                Inl e \<Rightarrow> (Inl e, s2)
              | Inr sol \<Rightarrow>
                  (case sub_solver_solve env sol s2 of
                     (Some msg, s3) \<Rightarrow> (Inl (LinearSolveError msg), s3)
                   | (None, s3) \<Rightarrow>
                       (case rotate_history (self_k s3) (fst (flow_q (store s3 (self_flow s3))))
                               (self_u_prev s3) of
                          (Some e, us) \<Rightarrow> (Inl e, s3\<lparr>self_u_prev := us\<rparr>)
                        | (None, us) \<Rightarrow>
                            (let s4 = s3\<lparr>self_u_prev := us\<rparr>;
                                 s5 = s4\<lparr>self_t := self_t s4 + self_dt s4\<rparr>;
                                 s6 = s5\<lparr>self_noise_idx := self_noise_idx s5 + 1\<rparr>
                             in if self_noise_idx s6 < int (length (self_noise s6))
                                then (Inr (self_flow s6), s6)
                                else (Inl (AssertionError ''Not enough noise samples generated''),
                                      s6))))))"

subsection \<open>The driver loop\<close>

text \<open>
  \<open>for iter in range(num_steps): self.step(iter)\<close>, as in \<open>solve\<close> of \<open>ts.py\<close> (lines
  120 and 121): the steps are numbered from \<open>0\<close>, no control input is given, and the
  first exception ends the run. The result is the exception, if any, the number of steps
  that returned, and the last state.
\<close>

fun run_steps ::
  "('u::real_vector, 'p, 'a, 'b, 'c) collaborators \<Rightarrow> int list \<Rightarrow> ('u, 'p, 'a, 'b) solver
     \<Rightarrow> error option \<times> nat \<times> ('u, 'p, 'a, 'b) solver" where
  "run_steps env [] s = (None, 0, s)"
| "run_steps env (i # rest) s =
     (case step env i None s of
        (Inl e, s') \<Rightarrow> (Some e, 0, s')
      | (Inr _, s') \<Rightarrow>
          (case run_steps env rest s' of (r, n, s'') \<Rightarrow> (r, Suc n, s'')))"

subsection \<open>\<open>__init__\<close> (lines 22 to 43)\<close>

text \<open>
  The registry \<open>ns_stabilization\<close> (module \<open>.stabilization\<close>) and the base class are not
  part of the sources at hand: the registry is a parameter, a dictionary with string keys
  given as its list of items, and \<open>base_init\<close> stands for \<open>super().__init__(...)\<close> followed
  by \<open>self.reset()\<close>, on an object whose \<open>k\<close>, \<open>stabilization\<close>, \<open>ksp_rtol\<close> and
  \<open>StabilizationType\<close> are set. The message is the f-string of lines 37 and 38; the
  \<open>repr\<close> of a key is the key between single quotes (keys without quotes, backslashes or
  control characters).
\<close>

definition py_repr :: "string \<Rightarrow> string" where
  "py_repr x = [CHR 0x27] @ x @ [CHR 0x27]"

fun join :: "string \<Rightarrow> string list \<Rightarrow> string" where
  "join sep [] = []"
| "join sep [x] = x"
| "join sep (x # y # ys) = x @ sep @ join sep (y # ys)"

definition dict_keys_str :: "string list \<Rightarrow> string" where
  "dict_keys_str ks = ''dict_keys(['' @ join '', '' (map py_repr ks) @ ''])''"

definition not_recognized :: "string \<Rightarrow> string list \<Rightarrow> string" where
  "not_recognized stabilization ks =
     ''Stabilization type '' @ stabilization @ '' not recognized. ''
       @ ''Available options: '' @ dict_keys_str ks"

definition init ::
  "(string \<times> 'st) list \<Rightarrow> (int \<Rightarrow> string \<Rightarrow> real \<Rightarrow> 'st \<Rightarrow> error + 'obj)
     \<Rightarrow> int \<Rightarrow> string \<Rightarrow> real \<Rightarrow> error + 'obj" where
  "init ns_stabilization base_init ord stabilization rtol =
     (case map_of ns_stabilization stabilization of
        None \<Rightarrow> Inl (ValueError (not_recognized stabilization (map fst ns_stabilization)))
      | Some stabilization_type \<Rightarrow> base_init ord stabilization rtol stabilization_type)"

subsection \<open>A small instance\<close>

text \<open>
  A scalar instance to run the definitions on: the velocity is a real number, the solve
  is the exact solution of \<open>(alpha * u - u_BDF) / h = eta + control\<close>, and the actuator
  is a first-order filter. \<open>failing_env\<close> is the same with a solve that raises and
  leaves \<open>q\<close> alone.
\<close>

definition demo_env :: "(real, unit, real, real, real) collaborators" where
  "demo_env =
     \<lparr>fe_solve = (\<lambda>form fl.
        (None, ((wf_u_BDF form + wf_h form * (wf_eta form + flow_control fl)) / wf_alpha form, ()))),
      actuator_dynamics = (\<lambda>c h a. (a + h * (c - a), a + h * (c - a)))\<rparr>"

definition failing_env :: "(real, unit, real, real, real) collaborators" where
  "failing_env = demo_env\<lparr>fe_solve := (\<lambda>form fl. (Some ''diverged'', flow_q fl))\<rparr>"

definition demo_flow :: "(real, unit, real, real) flow_config" where
  "demo_flow = \<lparr>flow_q = (1, ()), flow_actuators = 0, flow_control = 0\<rparr>"

text \<open>
  An object of order \<open>kk\<close> with the noise samples \<open>ns\<close>, before and after
  \<open>initialize_functions\<close> and \<open>initialize_operators\<close>.
\<close>

definition demo_new :: "int \<Rightarrow> real list \<Rightarrow> (real, unit, real, real) solver" where
  "demo_new kk ns =
     \<lparr>self_k = kk, self_dt = 1 / 100, self_t = 0, self_eta = 0, self_noise = ns,
      self_noise_idx = 0, self_u_prev = [], self_petsc_solver = None,
      self_startup_solvers = [], self_flow = 0, store = (\<lambda>_. demo_flow)\<rparr>"

definition demo_reset :: "int \<Rightarrow> real list \<Rightarrow> error + (real, unit, real, real) solver" where
  "demo_reset kk ns = initialize_operators (initialize_functions (demo_new kk ns))"

definition demo_solver :: "int \<Rightarrow> real list \<Rightarrow> (real, unit, real, real) solver" where
  "demo_solver kk ns = (case demo_reset kk ns of Inl e \<Rightarrow> demo_new kk ns | Inr s \<Rightarrow> s)"

text \<open>
  The order of the sub-solver that a solver of order \<open>kk\<close> picks at step number \<open>iter\<close>
  (lines 169 to 172, after \<open>initialize_operators\<close>).
\<close>

definition selected_order :: "int \<Rightarrow> int \<Rightarrow> error + int" where
  "selected_order kk iter =
     (case initialize_operators (demo_new kk []) of
        Inl e \<Rightarrow> Inl e
      | Inr s \<Rightarrow>
          (case select_solver iter s of
             Inl e \<Rightarrow> Inl e
           | Inr sol \<Rightarrow> Inr (sol_order sol)))"

section \<open>Properties\<close>

subsection \<open>Coefficient tables\<close>

lemma order_k_coefficients_1: "order_k_coefficients 1 = Inr (1, [1], [1])"
  by (simp add: order_k_coefficients_def py_index_def py_position_def alpha_BDF_def beta_BDF_def
      beta_EXT_def)

lemma order_k_coefficients_2: "order_k_coefficients 2 = Inr (3 / 2, [2, - 1 / 2], [2, - 1])"
  by (simp add: order_k_coefficients_def py_index_def py_position_def alpha_BDF_def beta_BDF_def
      beta_EXT_def)

lemma order_k_coefficients_3:
  "order_k_coefficients 3 = Inr (11 / 6, [3, - 3 / 2, 1 / 3], [3, - 3, 1])"
  by (simp add: order_k_coefficients_def py_index_def py_position_def alpha_BDF_def beta_BDF_def
      beta_EXT_def)

subsection \<open>Indexing\<close>

lemma py_position_neg:
  "i < 0 \<Longrightarrow> - int (length xs) \<le> i \<Longrightarrow> py_position xs i = Inr (nat (int (length xs) + i))"
  by (simp add: py_position_def)

lemma py_index_neg:
  "i < 0 \<Longrightarrow> - int (length xs) \<le> i \<Longrightarrow> py_index xs i = Inr (xs ! nat (int (length xs) + i))"
  by (simp add: py_index_def py_position_neg)

subsection \<open>History\<close>

lemma shift_history_length: "length (snd (shift_history js us)) = length us"
  by (induction js arbitrary: us) (auto split: sum.splits)

lemma rotate_history_length: "length (snd (rotate_history kk y us)) = length us"
  using shift_history_length [of "[0 .. kk - 1 - 1]" us]
  by (auto simp: rotate_history_def split: prod.splits option.splits sum.splits)

lemma shift_history_append:
  "shift_history (js @ ks) us =
     (case shift_history js us of
        (Some e, us') \<Rightarrow> (Some e, us')
      | (None, us') \<Rightarrow> shift_history ks us')"
  by (induction js arbitrary: us) (auto split: sum.splits)

lemma shift_history_Cons:
  "\<forall>i\<in>set js. 0 \<le> i \<and> i + 2 \<le> int (length xs) \<Longrightarrow>
     shift_history js (x # xs) = (case shift_history js xs of (r, us') \<Rightarrow> (r, x # us'))"
proof (induction js arbitrary: xs)
  case Nil
  then show ?case by simp
next
  case (Cons j js)
  have j: "0 \<le> j" "j + 2 \<le> int (length xs)"
    using Cons.prems by auto
  define p where "p = nat (int (length xs) + (- (j + 1)))"
  define v where "v = xs ! nat (int (length xs) + (- (j + 2)))"
  have sp: "nat (int (length (x # xs)) + (- (j + 1))) = Suc p"
    unfolding p_def using j by (simp; linarith)
  have sq: "nat (int (length (x # xs)) + (- (j + 2))) = Suc (nat (int (length xs) + (- (j + 2))))"
    using j by (simp; linarith)
  have dst: "py_position xs (- (j + 1)) = Inr p"
    unfolding p_def using j by (intro py_position_neg) auto
  have "py_position (x # xs) (- (j + 1)) = Inr (nat (int (length (x # xs)) + (- (j + 1))))"
    using j by (intro py_position_neg) auto
  then have dst': "py_position (x # xs) (- (j + 1)) = Inr (Suc p)"
    by (simp only: sp)
  have src: "py_index xs (- (j + 2)) = Inr v"
    unfolding v_def using j by (intro py_index_neg) auto
  have "py_index (x # xs) (- (j + 2)) = Inr ((x # xs) ! nat (int (length (x # xs)) + (- (j + 2))))"
    using j by (intro py_index_neg) auto
  then have src': "py_index (x # xs) (- (j + 2)) = Inr v"
    by (simp only: sq nth_Cons_Suc v_def)
  have rest: "\<forall>i\<in>set js. 0 \<le> i \<and> i + 2 \<le> int (length (xs[p := v]))"
    using Cons.prems by simp
  have left: "shift_history (j # js) (x # xs) = shift_history js (x # xs[p := v])"
    by (simp only: shift_history.simps dst' src' sum.case list_update_code)
  have right: "shift_history (j # js) xs = shift_history js (xs[p := v])"
    by (simp only: shift_history.simps dst src sum.case)
  show ?case
    using Cons.IH [OF rest] by (simp only: left right)
qed

lemma shift_history_full:
  "xs \<noteq> [] \<Longrightarrow> shift_history [0 .. int (length xs) - 2] xs = (None, hd xs # butlast xs)"
proof (induction xs)
  case Nil
  then show ?case by simp
next
  case (Cons a xs)
  show ?case
  proof (cases xs)
    case Nil
    then show ?thesis by simp
  next
    case (Cons b ys)
    let ?n = "int (length xs)"
    have split: "[0 .. int (length (a # xs)) - 2] = [0 .. ?n - 2] @ [?n - 1]"
      using Cons upto_rec2 [of 0 "?n - 1"] by simp
    have inner: "shift_history [0 .. ?n - 2] xs = (None, b # butlast xs)"
      using Cons.IH Cons by simp
    have front: "shift_history [0 .. ?n - 2] (a # xs) = (None, a # b # butlast xs)"
      using shift_history_Cons [of "[0 .. ?n - 2]" xs a] inner by simp
    have len: "length (butlast xs) = length ys"
      using Cons by simp
    have last_step: "shift_history [?n - 1] (a # b # butlast xs) = (None, a # a # butlast xs)"
      using Cons len by (simp add: py_position_def py_index_def)
    show ?thesis
      using split front last_step Cons by (simp add: shift_history_append)
  qed
qed

lemma rotate_history_full:
  "us \<noteq> [] \<Longrightarrow> rotate_history (int (length us)) y us = (None, y # butlast us)"
  using shift_history_full [of us]
  by (simp add: rotate_history_def py_position_def)

lemma rotate_history_error_unchanged:
  assumes "length us = nat kk" and "rotate_history kk y us = (Some e, us')"
  shows "us' = us"
proof (cases "1 \<le> kk")
  case True
  then have "us \<noteq> []" "int (length us) = kk"
    using assms(1) by auto
  then show ?thesis
    using rotate_history_full [of us y] assms(2) by simp
next
  case False
  then have "us = []" "[0 .. kk - 1 - 1] = []"
    using assms(1) by auto
  then show ?thesis
    using assms(2) by (simp add: rotate_history_def py_position_def)
qed

text \<open>
  Claim C6. For \<open>k = 3\<close>, seeding the history with \<open>x\<close> and rotating once with \<open>y\<close>
  gives \<open>[y, x, x]\<close>, most recent first. In general a rotation of a full, non-empty
  history drops the oldest entry, moves the others one place towards the oldest and puts
  the new state first; whatever happens, the length of the history stays the same.
\<close>

theorem history_seed_rotate:
  fixes x y z :: 'u and us :: "'u list"
  shows "rotate_history 3 y (seed_history 3 x) = (None, [y, x, x])
   \<and> (us \<noteq> [] \<longrightarrow> rotate_history (int (length us)) z us = (None, z # butlast us))
   \<and> length (snd (rotate_history kk z us)) = length us"
proof -
  have "seed_history 3 x = [x, x, x]"
    by (simp add: seed_history_def numeral_3_eq_3)
  then have "rotate_history 3 y (seed_history 3 x) = (None, [y, x, x])"
    using rotate_history_full [of "[x, x, x]" y] by simp
  then show ?thesis
    using rotate_history_full [of us z] rotate_history_length [of kk z us] by simp
qed

theorem history_seed_rotate_witness:
  "[1, 2, 3 :: int] \<noteq> [] \<and> rotate_history 3 9 [1, 2, 3 :: int] = (None, [9, 1, 2])
   \<and> length (snd (rotate_history 3 9 [1, 2, 3 :: int])) = length [1, 2, 3 :: int]"
  using history_seed_rotate [of "9 :: int" 1 "[1, 2, 3]" 9 3] by simp

subsection \<open>Order lookup\<close>

lemma order_k_coefficients_wrap:
  "order_k_coefficients 0 = order_k_coefficients 3"
  "order_k_coefficients (- 1) = order_k_coefficients 2"
  "order_k_coefficients (- 2) = order_k_coefficients 1"
  by (simp_all add: order_k_coefficients_def py_index_def py_position_def alpha_BDF_def
      beta_BDF_def beta_EXT_def)

lemma order_k_coefficients_out_of_range:
  "k < - 2 \<or> 3 < k \<Longrightarrow> order_k_coefficients k = Inl IndexError"
  by (auto simp: order_k_coefficients_def py_index_def py_position_def beta_EXT_def)

text \<open>
  Claim C5, as stated, fails at order \<open>0\<close>: the order is outside \<open>1..3\<close>, yet the lookup
  raises nothing and returns the rows of order 3, because \<open>k_idx = -1\<close> reads the tables
  from the back.
\<close>

theorem order_zero_is_not_rejected:
  "order_k_coefficients 0 = Inr (11 / 6, [3, - 3 / 2, 1 / 3], [3, - 3, 1])"
  by (simp add: order_k_coefficients_wrap order_k_coefficients_3)

text \<open>
  Claim C5, amended. The lookup is a function of the order alone. For every order in
  \<open>1..3\<close> it returns the rows of that order; for every order above 3 and every order
  below \<open>-2\<close> it raises \<open>IndexError\<close>; the orders \<open>0\<close>, \<open>-1\<close> and \<open>-2\<close> are not
  rejected: they give what the orders 3, 2 and 1 give.
\<close>

theorem order_k_coefficients_domain:
  "(1 \<le> k \<and> k \<le> 3 \<longrightarrow>
      order_k_coefficients k =
        Inr (alpha_BDF ! nat (k - 1), beta_BDF ! nat (k - 1), beta_EXT ! nat (k - 1)))
   \<and> (k < - 2 \<or> 3 < k \<longrightarrow> order_k_coefficients k = Inl IndexError)
   \<and> (- 2 \<le> k \<and> k \<le> 0 \<longrightarrow> order_k_coefficients k = order_k_coefficients (k + 3))"
proof (intro conjI impI)
  assume "1 \<le> k \<and> k \<le> 3"
  then have "k = 1 \<or> k = 2 \<or> k = 3" by auto
  then show "order_k_coefficients k =
      Inr (alpha_BDF ! nat (k - 1), beta_BDF ! nat (k - 1), beta_EXT ! nat (k - 1))"
    by (auto simp: order_k_coefficients_1 order_k_coefficients_2 order_k_coefficients_3
        alpha_BDF_def beta_BDF_def beta_EXT_def)
next
  assume "k < - 2 \<or> 3 < k"
  then show "order_k_coefficients k = Inl IndexError"
    by (rule order_k_coefficients_out_of_range)
next
  assume "- 2 \<le> k \<and> k \<le> 0"
  then have "k = 0 \<or> k = - 1 \<or> k = - 2" by auto
  then show "order_k_coefficients k = order_k_coefficients (k + 3)"
    by (auto simp: order_k_coefficients_wrap)
qed

theorem order_k_coefficients_domain_witness:
  "(1 \<le> (2::int) \<and> (2::int) \<le> 3)
   \<and> order_k_coefficients 2 = Inr (3 / 2, [2, - 1 / 2], [2, - 1])
   \<and> ((4::int) < - 2 \<or> 3 < (4::int))
   \<and> order_k_coefficients 4 = Inl IndexError
   \<and> (- 2 \<le> (- 1::int) \<and> (- 1::int) \<le> 0)
   \<and> order_k_coefficients (- 1) = order_k_coefficients 2"
  using order_k_coefficients_domain [of 2] order_k_coefficients_domain [of 4]
    order_k_coefficients_domain [of "- 1"]
  by (simp add: alpha_BDF_def beta_BDF_def beta_EXT_def)

subsection \<open>Wind\<close>

lemma make_order_k_solver_1:
  "make_order_k_solver 1 = Inr \<lparr>sol_order = 1, sol_alpha = 1, sol_beta_BDF = [1], sol_beta_EXT = [1]\<rparr>"
  by (simp add: make_order_k_solver_def order_k_coefficients_1)

lemma make_order_k_solver_2:
  "make_order_k_solver 2 =
     Inr \<lparr>sol_order = 2, sol_alpha = 3 / 2, sol_beta_BDF = [2, - 1 / 2], sol_beta_EXT = [2, - 1]\<rparr>"
  by (simp add: make_order_k_solver_def order_k_coefficients_2)

lemma make_order_k_solver_3:
  "make_order_k_solver 3 =
     Inr \<lparr>sol_order = 3, sol_alpha = 11 / 6, sol_beta_BDF = [3, - 3 / 2, 1 / 3],
          sol_beta_EXT = [3, - 3, 1]\<rparr>"
  by (simp add: make_order_k_solver_def order_k_coefficients_3)

lemmas make_order_k_solver_simps =
  make_order_k_solver_1 make_order_k_solver_2 make_order_k_solver_3

lemma wind_1: "wind 1 (a # us) = Inr (1 *\<^sub>R a)"
  by (simp add: wind_def make_order_k_solver_1 combination_def py_sum_def)

lemma wind_2: "wind 2 (a # b # us) = Inr (2 *\<^sub>R a + (- 1) *\<^sub>R b)"
  by (simp add: wind_def make_order_k_solver_2 combination_def py_sum_def)

lemma wind_3: "wind 3 (a # b # c # us) = Inr (3 *\<^sub>R a + (- 3) *\<^sub>R b + 1 *\<^sub>R c)"
  by (simp add: wind_def make_order_k_solver_3 combination_def py_sum_def)

lemma sub_solver_solve_u_prev:
  "self_u_prev (snd (sub_solver_solve env sol s)) = self_u_prev s"
  by (simp add: sub_solver_solve_def Let_def split: prod.splits)

lemma wind_sum:
  fixes us :: "'u::real_vector list"
  assumes "1 \<le> n" "n \<le> 3" "nat n \<le> length us"
  shows "wind n us = Inr (\<Sum>i<nat n. (beta_EXT ! nat (n - 1) ! i) *\<^sub>R (us ! i))"
proof -
  consider "n = 1" | "n = 2" | "n = 3"
    using assms by linarith
  then show ?thesis
  proof cases
    case 1
    then obtain a vs where "us = a # vs"
      using assms(3) by (cases us) auto
    then show ?thesis
      using 1 by (simp add: wind_1 beta_EXT_def)
  next
    case 2
    then obtain a b vs where "us = a # b # vs"
      using assms(3) by (cases us; cases "tl us") auto
    then show ?thesis
      using 2 by (simp add: wind_2 beta_EXT_def numeral_2_eq_2)
  next
    case 3
    then obtain a b c vs where "us = a # b # c # vs"
      using assms(3) by (cases us; cases "tl us"; cases "tl (tl us)") auto
    then show ?thesis
      using 3 by (simp add: wind_3 beta_EXT_def numeral_3_eq_3)
  qed
qed

text \<open>
  Claim C7. The wind of order \<open>n\<close> over a history is the sum of
  \<open>beta_EXT[i] * history[i]\<close> over the first \<open>n\<close> entries; on \<open>[y, x, x]\<close> the wind of
  order 2 is \<open>2 * y - 1 * x\<close>. The wind is a value computed from the history, and the
  solve that evaluates it leaves the history as it was.
\<close>

theorem wind_is_ext_combination:
  fixes x y :: "'u::real_vector" and us :: "'u list"
    and env :: "('u, 'p, 'a, 'b, 'c) collaborators"
  shows "wind 2 [y, x, x] = Inr (2 *\<^sub>R y - 1 *\<^sub>R x)
   \<and> (1 \<le> n \<and> n \<le> 3 \<and> nat n \<le> length us \<longrightarrow>
        wind n us = Inr (\<Sum>i<nat n. (beta_EXT ! nat (n - 1) ! i) *\<^sub>R (us ! i)))
   \<and> self_u_prev (snd (sub_solver_solve env sol s)) = self_u_prev s"
  using wind_sum [of n us] by (simp add: wind_2 sub_solver_solve_u_prev)

theorem wind_is_ext_combination_witness:
  "(1 \<le> (3::int) \<and> (3::int) \<le> 3 \<and> nat 3 \<le> length [5, 7, 11 :: real])
   \<and> wind 3 [5, 7, 11 :: real] = Inr 5
   \<and> wind 2 [5, 7, 7 :: real] = Inr 3"
  using wind_is_ext_combination [where y = 5 and x = "7 :: real" and n = 3 and us = "[5, 7, 11]"
      and env = demo_env and s = "demo_new 3 []"]
  by (simp add: beta_EXT_def numeral_3_eq_3)

subsection \<open>Construction\<close>

lemma sublist_join:
  "key \<in> set ks \<Longrightarrow> sublist key (join sep ks)"
proof (induction sep ks rule: join.induct)
  case (1 sep)
  then show ?case by simp
next
  case (2 sep x)
  then show ?case by simp
next
  case (3 sep x y ys)
  show ?case
  proof (cases "key = x")
    case True
    then show ?thesis by simp
  next
    case False
    then have "sublist key (join sep (y # ys))"
      using 3 by simp
    then obtain ps ss where "join sep (y # ys) = ps @ key @ ss"
      by (auto simp: sublist_def)
    then have "join sep (x # y # ys) = (x @ sep @ ps) @ key @ ss"
      by simp
    then show ?thesis
      unfolding sublist_def by blast
  qed
qed

lemma sublist_py_repr: "sublist key (py_repr key)"
  unfolding py_repr_def by (rule sublist_appendI)

lemma not_recognized_lists_keys:
  assumes "key \<in> set ks"
  shows "sublist key (not_recognized name ks)"
proof -
  have "py_repr key \<in> set (map py_repr ks)"
    using assms by simp
  then have "sublist (py_repr key) (join '', '' (map py_repr ks))"
    by (rule sublist_join)
  then have "sublist key (join '', '' (map py_repr ks))"
    using sublist_py_repr sublist_order.order.trans by blast
  then obtain ps ss where "join '', '' (map py_repr ks) = ps @ key @ ss"
    by (auto simp: sublist_def)
  then have "not_recognized name ks =
      (''Stabilization type '' @ name @ '' not recognized. '' @ ''Available options: ''
        @ ''dict_keys(['' @ ps) @ key @ (ss @ ''])'')"
    by (simp add: not_recognized_def dict_keys_str_def)
  then show ?thesis
    unfolding sublist_def by blast
qed

text \<open>
  Claim C8. A stabilization name that is not a key of the registry makes the constructor
  raise \<open>ValueError\<close> with a message that names every key of the registry; the base
  constructor and \<open>reset\<close> are not reached, so the result does not depend on them. A
  name that is a key passes the check: the constructor goes on to the base constructor
  with the registered stabilization type.
\<close>

theorem init_checks_stabilization:
  "(name \<notin> fst ` set reg \<longrightarrow>
      init reg base_init ord name rtol = Inl (ValueError (not_recognized name (map fst reg)))
      \<and> (\<forall>key \<in> fst ` set reg. sublist key (not_recognized name (map fst reg))))
   \<and> (name \<in> fst ` set reg \<longrightarrow>
      (\<exists>ty. map_of reg name = Some ty
         \<and> init reg base_init ord name rtol = base_init ord name rtol ty))"
proof (intro conjI impI ballI)
  assume "name \<notin> fst ` set reg"
  then have "map_of reg name = None"
    by (simp add: map_of_eq_None_iff)
  then show "init reg base_init ord name rtol
      = Inl (ValueError (not_recognized name (map fst reg)))"
    by (simp add: init_def)
next
  fix key
  assume "key \<in> fst ` set reg"
  then show "sublist key (not_recognized name (map fst reg))"
    by (intro not_recognized_lists_keys) simp
next
  assume "name \<in> fst ` set reg"
  then obtain ty where "map_of reg name = Some ty"
    by (metis map_of_eq_None_iff not_Some_eq)
  then show "\<exists>ty. map_of reg name = Some ty
      \<and> init reg base_init ord name rtol = base_init ord name rtol ty"
    by (simp add: init_def)
qed

theorem init_checks_stabilization_witness:
  "''supg'' \<notin> fst ` set [(''none'', 0 :: nat), (''gls'', 1)]
   \<and> init [(''none'', 0 :: nat), (''gls'', 1)] (\<lambda>ord name rtol ty. Inr (ord, ty)) 3 ''supg'' 0
       = (Inl (ValueError (''Stabilization type supg not recognized. ''
            @ ''Available options: dict_keys(['' @ [CHR 0x27] @ ''none'' @ [CHR 0x27]
            @ '', '' @  [CHR 0x27] @ ''gls'' @ [CHR 0x27] @ ''])'')) :: error + int \<times> nat)
   \<and> ''gls'' \<in> fst ` set [(''none'', 0 :: nat), (''gls'', 1)]
   \<and> init [(''none'', 0 :: nat), (''gls'', 1)] (\<lambda>ord name rtol ty. Inr (ord, ty)) 3 ''gls'' 0
       = (Inr (3, 1) :: error + int \<times> nat)"
  using init_checks_stabilization [of "''supg''" "[(''none'', 0 :: nat), (''gls'', 1)]"
      "\<lambda>ord name rtol ty. Inr (ord, ty) :: error + int \<times> nat" 3 0]
    init_checks_stabilization [of "''gls''" "[(''none'', 0 :: nat), (''gls'', 1)]"
      "\<lambda>ord name rtol ty. Inr (ord, ty) :: error + int \<times> nat" 3 0]
  by (simp add: not_recognized_def dict_keys_str_def py_repr_def)

subsection \<open>What the phases of a step leave alone\<close>

lemma apply_control_frame:
  "self_k (apply_control env control s) = self_k s"
  "self_dt (apply_control env control s) = self_dt s"
  "self_t (apply_control env control s) = self_t s"
  "self_eta (apply_control env control s) = self_eta s"
  "self_noise (apply_control env control s) = self_noise s"
  "self_noise_idx (apply_control env control s) = self_noise_idx s"
  "self_u_prev (apply_control env control s) = self_u_prev s"
  "self_petsc_solver (apply_control env control s) = self_petsc_solver s"
  "self_startup_solvers (apply_control env control s) = self_startup_solvers s"
  "self_flow (apply_control env control s) = self_flow s"
  by (simp_all add: apply_control_def split: option.splits prod.splits)

lemma apply_control_store:
  "r \<noteq> self_flow s \<Longrightarrow> store (apply_control env control s) r = store s r"
  by (simp add: apply_control_def split: option.splits prod.splits)

lemma apply_control_Some:
  "store (apply_control env (Some c) s) (self_flow s) =
     (store s (self_flow s))
       \<lparr>flow_actuators := snd (actuator_dynamics env c (self_dt s)
           (flow_actuators (store s (self_flow s)))),
        flow_control := fst (actuator_dynamics env c (self_dt s)
           (flow_actuators (store s (self_flow s))))\<rparr>"
  by (simp add: apply_control_def update_actuators_def set_control_def split: prod.splits)

lemma sub_solver_solve_frame:
  "self_k (snd (sub_solver_solve env sol s)) = self_k s"
  "self_dt (snd (sub_solver_solve env sol s)) = self_dt s"
  "self_t (snd (sub_solver_solve env sol s)) = self_t s"
  "self_eta (snd (sub_solver_solve env sol s)) = self_eta s"
  "self_noise (snd (sub_solver_solve env sol s)) = self_noise s"
  "self_noise_idx (snd (sub_solver_solve env sol s)) = self_noise_idx s"
  "self_petsc_solver (snd (sub_solver_solve env sol s)) = self_petsc_solver s"
  "self_startup_solvers (snd (sub_solver_solve env sol s)) = self_startup_solvers s"
  "self_flow (snd (sub_solver_solve env sol s)) = self_flow s"
  by (simp_all add: sub_solver_solve_def Let_def split: prod.splits)

lemma sub_solver_solve_store:
  "r \<noteq> self_flow s \<Longrightarrow> store (snd (sub_solver_solve env sol s)) r = store s r"
  by (simp add: sub_solver_solve_def Let_def split: prod.splits)

lemma sub_solver_solve_flow:
  "flow_actuators (store (snd (sub_solver_solve env sol s)) (self_flow s))
     = flow_actuators (store s (self_flow s))"
  "flow_control (store (snd (sub_solver_solve env sol s)) (self_flow s))
     = flow_control (store s (self_flow s))"
  by (simp_all add: sub_solver_solve_def Let_def split: prod.splits)

lemmas step_frame =
  apply_control_frame sub_solver_solve_frame sub_solver_solve_u_prev

text \<open>The outcomes of a step, one per exit of the source.\<close>

lemma step_cases:
  assumes "step env iter control s = (r, s')"
  obtains
    (draw) e where "py_index (self_noise s) (self_noise_idx s) = Inl e" "r = Inl e" "s' = s"
  | (select) sample e where
      "py_index (self_noise s) (self_noise_idx s) = Inr sample"
      "select_solver iter (apply_control env control (s\<lparr>self_eta := sample\<rparr>)) = Inl e"
      "r = Inl e" "s' = apply_control env control (s\<lparr>self_eta := sample\<rparr>)"
  | (solve) sample sol msg where
      "py_index (self_noise s) (self_noise_idx s) = Inr sample"
      "select_solver iter (apply_control env control (s\<lparr>self_eta := sample\<rparr>)) = Inr sol"
      "fst (sub_solver_solve env sol (apply_control env control (s\<lparr>self_eta := sample\<rparr>)))
         = Some msg"
      "r = Inl (LinearSolveError msg)"
      "s' = snd (sub_solver_solve env sol (apply_control env control (s\<lparr>self_eta := sample\<rparr>)))"
  | (rotate) sample sol s3 e us where
      "py_index (self_noise s) (self_noise_idx s) = Inr sample"
      "select_solver iter (apply_control env control (s\<lparr>self_eta := sample\<rparr>)) = Inr sol"
      "sub_solver_solve env sol (apply_control env control (s\<lparr>self_eta := sample\<rparr>))
         = (None, s3)"
      "rotate_history (self_k s3) (fst (flow_q (store s3 (self_flow s3)))) (self_u_prev s3)
         = (Some e, us)"
      "r = Inl e" "s' = s3\<lparr>self_u_prev := us\<rparr>"
  | (commit) sample sol s3 us where
      "py_index (self_noise s) (self_noise_idx s) = Inr sample"
      "select_solver iter (apply_control env control (s\<lparr>self_eta := sample\<rparr>)) = Inr sol"
      "sub_solver_solve env sol (apply_control env control (s\<lparr>self_eta := sample\<rparr>))
         = (None, s3)"
      "rotate_history (self_k s3) (fst (flow_q (store s3 (self_flow s3)))) (self_u_prev s3)
         = (None, us)"
      "s' = s3\<lparr>self_u_prev := us, self_t := self_t s3 + self_dt s3,
               self_noise_idx := self_noise_idx s3 + 1\<rparr>"
      "r = (if self_noise_idx s3 + 1 < int (length (self_noise s3)) then Inr (self_flow s3)
            else Inl (AssertionError ''Not enough noise samples generated''))"
  using assms
  by (auto simp: step_def Let_def split: sum.splits prod.splits option.splits if_splits)

lemma step_keeps_solvers:
  "self_petsc_solver (snd (step env iter control s)) = self_petsc_solver s
   \<and> self_startup_solvers (snd (step env iter control s)) = self_startup_solvers s
   \<and> self_k (snd (step env iter control s)) = self_k s"
proof -
  obtain r s' where st: "step env iter control s = (r, s')"
    by (cases "step env iter control s")
  from st have "self_petsc_solver s' = self_petsc_solver s
      \<and> self_startup_solvers s' = self_startup_solvers s \<and> self_k s' = self_k s"
  proof (cases rule: step_cases)
    case (rotate sample sol s3 e us)
    have "s3 = snd (sub_solver_solve env sol (apply_control env control (s\<lparr>self_eta := sample\<rparr>)))"
      using rotate(3) by simp
    then show ?thesis
      using rotate(6) by (simp add: step_frame)
  next
    case (commit sample sol s3 us)
    have "s3 = snd (sub_solver_solve env sol (apply_control env control (s\<lparr>self_eta := sample\<rparr>)))"
      using commit(3) by simp
    then show ?thesis
      using commit(5) by (simp add: step_frame)
  qed (simp_all add: step_frame)
  then show ?thesis
    using st by simp
qed

text \<open>
  Claim C4. The coefficient tables hold the canonical values: looked up for order 1 they
  give \<open>alpha = 1.0\<close>, \<open>beta_BDF = [1.0]\<close>, \<open>beta_EXT = [1.0]\<close>; for order 2,
  \<open>alpha = 1.5\<close>, \<open>beta_BDF = [2.0, -0.5]\<close>, \<open>beta_EXT = [2.0, -1.0]\<close>; for order 3,
  \<open>alpha = 11/6\<close>, \<open>beta_BDF = [3.0, -1.5, 1/3]\<close>, \<open>beta_EXT = [3.0, -3.0, 1.0]\<close>. The
  tables are constants, no part of any state, and a step leaves the sub-solvers, with the
  coefficients they were built from, as they are.
\<close>

theorem coefficient_tables_canonical:
  "order_k_coefficients 1 = Inr (1, [1], [1])
   \<and> order_k_coefficients 2 = Inr (1.5, [2, - 0.5], [2, - 1])
   \<and> order_k_coefficients 3 = Inr (11 / 6, [3, - 1.5, 1 / 3], [3, - 3, 1])
   \<and> alpha_BDF = [1, 1.5, 11 / 6]
   \<and> beta_BDF = [[1], [2, - 0.5], [3, - 1.5, 1 / 3]]
   \<and> beta_EXT = [[1], [2, - 1], [3, - 3, 1]]
   \<and> self_petsc_solver (snd (step env iter control s)) = self_petsc_solver s
   \<and> self_startup_solvers (snd (step env iter control s)) = self_startup_solvers s"
  using step_keeps_solvers [of env iter control s]
  by (simp add: order_k_coefficients_1 order_k_coefficients_2 order_k_coefficients_3
      alpha_BDF_def beta_BDF_def beta_EXT_def)

subsection \<open>The small instance, evaluated\<close>

lemma initialize_operators_1:
  "self_k s = 1 \<Longrightarrow> initialize_operators s =
     Inr (s\<lparr>self_petsc_solver := Some \<lparr>sol_order = 1, sol_alpha = 1, sol_beta_BDF = [1],
              sol_beta_EXT = [1]\<rparr>,
            self_startup_solvers := []\<rparr>)"
  by (simp add: initialize_operators_def make_order_k_solver_simps)

lemma initialize_operators_2:
  "self_k s = 2 \<Longrightarrow> initialize_operators s =
     Inr (s\<lparr>self_petsc_solver := Some \<lparr>sol_order = 2, sol_alpha = 3 / 2,
              sol_beta_BDF = [2, - 1 / 2], sol_beta_EXT = [2, - 1]\<rparr>,
            self_startup_solvers :=
              [\<lparr>sol_order = 1, sol_alpha = 1, sol_beta_BDF = [1], sol_beta_EXT = [1]\<rparr>]\<rparr>)"
  by (simp add: initialize_operators_def make_order_k_solver_simps upto.simps)

lemma initialize_operators_3:
  "self_k s = 3 \<Longrightarrow> initialize_operators s =
     Inr (s\<lparr>self_petsc_solver := Some \<lparr>sol_order = 3, sol_alpha = 11 / 6,
              sol_beta_BDF = [3, - 3 / 2, 1 / 3], sol_beta_EXT = [3, - 3, 1]\<rparr>,
            self_startup_solvers :=
              [\<lparr>sol_order = 1, sol_alpha = 1, sol_beta_BDF = [1], sol_beta_EXT = [1]\<rparr>,
               \<lparr>sol_order = 2, sol_alpha = 3 / 2, sol_beta_BDF = [2, - 1 / 2],
                  sol_beta_EXT = [2, - 1]\<rparr>]\<rparr>)"
  by (simp add: initialize_operators_def make_order_k_solver_simps upto.simps)

lemmas initialize_operators_simps =
  initialize_operators_1 initialize_operators_2 initialize_operators_3

lemmas demo_eval =
  demo_solver_def demo_reset_def initialize_functions_def seed_history_def
  initialize_operators_simps demo_new_def demo_flow_def demo_env_def failing_env_def
  step_def apply_control_def update_actuators_def set_control_def select_solver_def
  sub_solver_solve_def rotate_history_def py_index_def py_position_def combination_def
  py_sum_def Let_def upto.simps

subsection \<open>Start-up selection\<close>

text \<open>
  For orders 1 to 3 and step numbers from \<open>0\<close>, the sub-solver picked by lines 169 to 172:
  the full order from step \<open>k\<close> on, order \<open>iter\<close> at the steps 1 to \<open>k - 1\<close>, and at
  step \<open>0\<close> the last start-up solver (\<open>startup_solvers[-1]\<close>, of order \<open>k - 1\<close>), or an
  \<open>IndexError\<close> when there is none.
\<close>

lemma selected_order_eq:
  assumes "1 \<le> kk" "kk \<le> 3" "0 \<le> i"
  shows "selected_order kk i =
     (if kk - 1 < i then Inr kk
      else if 1 \<le> i then Inr i
      else if kk = 1 then Inl IndexError
      else Inr (kk - 1))"
proof -
  consider "kk = 1" | "kk = 2" | "kk = 3"
    using assms by linarith
  then show ?thesis
  proof cases
    case 1
    then show ?thesis
      using assms(3)
      by (auto simp: selected_order_def initialize_operators_simps demo_new_def
          select_solver_def py_index_def py_position_def)
  next
    case 2
    then show ?thesis
      using assms(3)
      by (auto simp: selected_order_def initialize_operators_simps demo_new_def
          select_solver_def py_index_def py_position_def)
  next
    case 3
    have "i = 0 \<or> i = 1 \<or> i = 2 \<or> 2 < i"
      using assms(3) by linarith
    then show ?thesis
      using 3
      by (auto simp: selected_order_def initialize_operators_simps demo_new_def
          select_solver_def py_index_def py_position_def)
  qed
qed

text \<open>
  Claim C1. The claim asks for order \<open>n + 1\<close> at the steps \<open>0\<close> to \<open>k - 2\<close> and order \<open>k\<close>
  from step \<open>k - 1\<close> on. The code, with steps numbered from \<open>0\<close>, does otherwise: a solver
  of order 3 solves the steps 0, 1, 2, 3 with the orders 2, 1, 2, 3; a solver of order 2
  solves the steps 0, 1, 2 with the orders 1, 1, 2; a solver of order 1 raises
  \<open>IndexError\<close> at step 0 (\<open>startup_solvers\<close> is empty) and uses order 1 from step 1 on.
\<close>

theorem startup_selection_off_by_one:
  "selected_order 3 0 = Inr 2 \<and> selected_order 3 1 = Inr 1 \<and> selected_order 3 2 = Inr 2
   \<and> selected_order 3 3 = Inr 3
   \<and> selected_order 2 0 = Inr 1 \<and> selected_order 2 1 = Inr 1 \<and> selected_order 2 2 = Inr 2
   \<and> selected_order 1 0 = Inl IndexError \<and> selected_order 1 1 = Inr 1
   \<and> fst (step demo_env 0 None (demo_solver 1 [1, 1])) = Inl IndexError"
  by (simp add: selected_order_def demo_solver_def demo_reset_def initialize_functions_def
      seed_history_def initialize_operators_simps demo_new_def select_solver_def py_index_def
      py_position_def step_def apply_control_def Let_def)

subsection \<open>Noise samples\<close>

text \<open>
  A step that draws the last sample of the schedule, or a later one, never returns: the
  assertion of line 182 asks for one sample more than the step has used.
\<close>

lemma step_on_last_sample:
  assumes "int (length (self_noise s)) \<le> self_noise_idx s + 1"
  shows "fst (step env iter control s) \<noteq> Inr h"
proof
  assume ok: "fst (step env iter control s) = Inr h"
  obtain r s' where st: "step env iter control s = (r, s')"
    by (cases "step env iter control s")
  from st show False
  proof (cases rule: step_cases)
    case (commit sample sol s3 us)
    have "s3 = snd (sub_solver_solve env sol (apply_control env control (s\<lparr>self_eta := sample\<rparr>)))"
      using commit(3) by simp
    then have "self_noise s3 = self_noise s" "self_noise_idx s3 = self_noise_idx s"
      by (simp_all add: step_frame)
    then show False
      using commit(6) ok st assms by simp
  qed (use ok st in auto)
qed

text \<open>
  Claim C2. The claim asks that a schedule of \<open>N\<close> samples carries \<open>N\<close> full steps. With
  order 2 and 5 samples the code returns from 4 steps only: the fifth step (number 4) has
  its sample, solves, rotates the history, advances the clock to \<open>5 * dt\<close> and the cursor
  to 5, and then raises the assertion \<open>Not enough noise samples generated\<close>.
\<close>

theorem last_sample_step_raises:
  "fst (run_steps demo_env [0, 1, 2, 3, 4] (demo_solver 2 [0, 0, 0, 0, 0]))
     = Some (AssertionError ''Not enough noise samples generated'')
   \<and> fst (snd (run_steps demo_env [0, 1, 2, 3, 4] (demo_solver 2 [0, 0, 0, 0, 0]))) = 4
   \<and> self_noise_idx (snd (snd (run_steps demo_env [0, 1, 2, 3, 4]
        (demo_solver 2 [0, 0, 0, 0, 0])))) = 5
   \<and> self_t (snd (snd (run_steps demo_env [0, 1, 2, 3, 4]
        (demo_solver 2 [0, 0, 0, 0, 0])))) = 5 / 100"
  by (simp add: demo_eval numeral_2_eq_2)

subsection \<open>Failed steps\<close>

lemma shift_history_error: "fst (shift_history js us) = Some e \<Longrightarrow> e = IndexError"
  by (induction js arbitrary: us)
    (auto simp: py_index_def py_position_def split: sum.splits if_splits)

text \<open>
  Claim C3, as stated, fails for the noise assertion: the step below raises it, and the
  clock, the noise cursor and the history are no longer what they were before the step.
\<close>

theorem assertion_after_commit:
  "fst (step demo_env 0 None (demo_solver 2 [1]))
     = Inl (AssertionError ''Not enough noise samples generated'')
   \<and> self_t (demo_solver 2 [1]) = 0
   \<and> self_t (snd (step demo_env 0 None (demo_solver 2 [1]))) = 1 / 100
   \<and> self_noise_idx (demo_solver 2 [1]) = 0
   \<and> self_noise_idx (snd (step demo_env 0 None (demo_solver 2 [1]))) = 1
   \<and> self_u_prev (demo_solver 2 [1]) = [1, 1]
   \<and> self_u_prev (snd (step demo_env 0 None (demo_solver 2 [1]))) = [101 / 100, 1]"
  by (simp add: demo_eval numeral_2_eq_2)

text \<open>
  Claim C3, amended. When a step raises anything but the assertion of line 182 (the noise
  draw, the choice of the sub-solver or the delegated solve failed), the history, the
  clock, the noise cursor and the noise schedule are exactly as they were before the
  step, for a solver whose history has its \<open>k\<close> entries. The step number is an argument
  of the caller, not a part of the state.
\<close>

theorem failed_step_keeps_core_state:
  assumes "step env iter control s = (Inl e, s')"
    and "e \<noteq> AssertionError ''Not enough noise samples generated''"
    and "length (self_u_prev s) = nat (self_k s)"
  shows "self_u_prev s' = self_u_prev s \<and> self_t s' = self_t s
    \<and> self_noise_idx s' = self_noise_idx s \<and> self_noise s' = self_noise s"
  using assms(1)
proof (cases rule: step_cases)
  case (draw e)
  then show ?thesis by simp
next
  case (select sample e)
  then show ?thesis by (simp add: step_frame)
next
  case (solve sample sol msg)
  then show ?thesis by (simp add: step_frame)
next
  case (rotate sample sol s3 e' us)
  have s3: "s3 = snd (sub_solver_solve env sol (apply_control env control (s\<lparr>self_eta := sample\<rparr>)))"
    using rotate(3) by simp
  have same: "self_u_prev s3 = self_u_prev s" "self_k s3 = self_k s" "self_t s3 = self_t s"
    "self_noise_idx s3 = self_noise_idx s" "self_noise s3 = self_noise s"
    unfolding s3 by (simp_all add: step_frame)
  have "us = self_u_prev s3"
    using rotate_history_error_unchanged [OF _ rotate(4)] assms(3) same by simp
  then show ?thesis
    using rotate(6) same by simp
next
  case (commit sample sol s3 us)
  then show ?thesis
    using assms(2) by (simp split: if_splits)
qed

text \<open>
  The scenario of the claim: two steps of a solver of order 3, then a third step whose
  solve fails.
\<close>

theorem failed_step_keeps_core_state_witness:
  "step failing_env 2 None
       (snd (snd (run_steps demo_env [0, 1] (demo_solver 3 [1, 1, 1, 1, 1, 1, 1, 1, 1, 1]))))
     = (Inl (LinearSolveError ''diverged''),
        snd (step failing_env 2 None
          (snd (snd (run_steps demo_env [0, 1] (demo_solver 3 [1, 1, 1, 1, 1, 1, 1, 1, 1, 1]))))))
   \<and> LinearSolveError ''diverged'' \<noteq> AssertionError ''Not enough noise samples generated''
   \<and> length (self_u_prev
        (snd (snd (run_steps demo_env [0, 1] (demo_solver 3 [1, 1, 1, 1, 1, 1, 1, 1, 1, 1])))))
      = nat (self_k
        (snd (snd (run_steps demo_env [0, 1] (demo_solver 3 [1, 1, 1, 1, 1, 1, 1, 1, 1, 1])))))
   \<and> self_u_prev (snd (step failing_env 2 None
        (snd (snd (run_steps demo_env [0, 1] (demo_solver 3 [1, 1, 1, 1, 1, 1, 1, 1, 1, 1]))))))
      = [61 / 60, 151 / 150, 1]
   \<and> self_t (snd (step failing_env 2 None
        (snd (snd (run_steps demo_env [0, 1] (demo_solver 3 [1, 1, 1, 1, 1, 1, 1, 1, 1, 1]))))))
      = 2 / 100
   \<and> self_noise_idx (snd (step failing_env 2 None
        (snd (snd (run_steps demo_env [0, 1] (demo_solver 3 [1, 1, 1, 1, 1, 1, 1, 1, 1, 1]))))))
      = 2"
proof -
  let ?s = "snd (snd (run_steps demo_env [0, 1] (demo_solver 3 [1, 1, 1, 1, 1, 1, 1, 1, 1, 1])))"
  have before: "self_u_prev ?s = [61 / 60, 151 / 150, 1]" "self_t ?s = 2 / 100"
    "self_noise_idx ?s = 2" "self_k ?s = 3"
    by (simp_all add: demo_eval numeral_3_eq_3)
  have "fst (step failing_env 2 None ?s) = Inl (LinearSolveError ''diverged'')"
    by (simp add: demo_eval numeral_3_eq_3)
  then have failed: "step failing_env 2 None ?s
      = (Inl (LinearSolveError ''diverged''), snd (step failing_env 2 None ?s))"
    by (simp add: prod_eq_iff)
  have full: "length (self_u_prev ?s) = nat (self_k ?s)"
    using before by simp
  show ?thesis
    using failed_step_keeps_core_state [OF failed _ full] failed full before by simp
qed

text \<open>
  Claim C10. When the delegated solve raises, the forcing scale \<open>eta\<close> holds the noise
  sample of this step, and, with a control input \<open>c\<close>, the actuator state and the
  boundary-condition scale of the Domain Model are those that \<open>update_actuators\<close> and
  \<open>set_control\<close> wrote before the solve: nothing is rolled back.
\<close>

theorem solve_failure_keeps_pre_solve_effects:
  assumes "step env iter control s = (Inl (LinearSolveError msg), s')"
  shows "py_index (self_noise s) (self_noise_idx s) = Inr (self_eta s')
    \<and> self_flow s' = self_flow s
    \<and> (\<forall>c. control = Some c \<longrightarrow>
          flow_actuators (store s' (self_flow s))
            = snd (actuator_dynamics env c (self_dt s) (flow_actuators (store s (self_flow s))))
          \<and> flow_control (store s' (self_flow s))
            = fst (actuator_dynamics env c (self_dt s) (flow_actuators (store s (self_flow s)))))"
  using assms
proof (cases rule: step_cases)
  case (draw e)
  then show ?thesis
    by (auto simp: py_index_def py_position_def split: if_splits sum.splits)
next
  case (select sample e)
  then show ?thesis
    by (auto simp: select_solver_def py_index_def py_position_def
        split: if_splits sum.splits option.splits)
next
  case (solve sample sol msg')
  let ?s2 = "apply_control env control (s\<lparr>self_eta := sample\<rparr>)"
  have fl: "self_flow ?s2 = self_flow s"
    by (simp add: step_frame)
  have "self_eta s' = sample" "self_flow s' = self_flow s"
    using solve(5) by (simp_all add: step_frame)
  moreover have "flow_actuators (store s' (self_flow s))
        = snd (actuator_dynamics env c (self_dt s) (flow_actuators (store s (self_flow s))))
      \<and> flow_control (store s' (self_flow s))
        = fst (actuator_dynamics env c (self_dt s) (flow_actuators (store s (self_flow s))))"
    if "control = Some c" for c
    using sub_solver_solve_flow [of env sol ?s2] apply_control_Some [of env c "s\<lparr>self_eta := sample\<rparr>"]
    unfolding solve(5) that by (simp add: step_frame)
  ultimately show ?thesis
    using solve(1) by simp
next
  case (rotate sample sol s3 e us)
  have "e = IndexError"
    using rotate(4) shift_history_error [of "[0 .. self_k s3 - 1 - 1]" "self_u_prev s3"]
    by (auto simp: rotate_history_def py_position_def split: prod.splits option.splits if_splits)
  then show ?thesis
    using rotate(5) by simp
next
  case (commit sample sol s3 us)
  then show ?thesis
    by (simp split: if_splits)
qed

theorem solve_failure_keeps_pre_solve_effects_witness:
  "step failing_env 0 (Some 1) (demo_solver 2 [7, 7])
     = (Inl (LinearSolveError ''diverged''),
        snd (step failing_env 0 (Some 1) (demo_solver 2 [7, 7])))
   \<and> self_eta (demo_solver 2 [7, 7]) = 0
   \<and> self_eta (snd (step failing_env 0 (Some 1) (demo_solver 2 [7, 7]))) = 7
   \<and> flow_actuators (store (snd (step failing_env 0 (Some 1) (demo_solver 2 [7, 7]))) 0)
      = 1 / 100
   \<and> flow_control (store (snd (step failing_env 0 (Some 1) (demo_solver 2 [7, 7]))) 0)
      = 1 / 100"
proof -
  let ?s = "demo_solver 2 [7, 7]"
  have start: "self_flow ?s = 0" "self_dt ?s = 1 / 100" "self_eta ?s = 0"
    "flow_actuators (store ?s 0) = 0" "py_index (self_noise ?s) (self_noise_idx ?s) = Inr 7"
    by (simp_all add: demo_eval)
  have act: "actuator_dynamics failing_env 1 (1 / 100) 0 = (1 / 100, 1 / 100)"
    by (simp add: demo_eval)
  have "fst (step failing_env 0 (Some 1) ?s) = Inl (LinearSolveError ''diverged'')"
    by (simp add: demo_eval numeral_2_eq_2 split: prod.splits)
  then have failed: "step failing_env 0 (Some 1) ?s
      = (Inl (LinearSolveError ''diverged''), snd (step failing_env 0 (Some 1) ?s))"
    by (simp add: prod_eq_iff)
  show ?thesis
    using solve_failure_keeps_pre_solve_effects [OF failed] failed start act by simp
qed

subsection \<open>The value returned\<close>

text \<open>
  Claim C9. A step that succeeds returns the handle \<open>self.flow\<close> it started with. No
  other object of the store is written, the store after the step is the store the solve
  left, and the newest history entry is the velocity read through the returned handle:
  the caller gets the Domain Model the solve has written, not a copy.
\<close>

theorem step_returns_flow_handle:
  assumes "step env iter control s = (Inr h, s')"
  shows "h = self_flow s \<and> self_flow s' = self_flow s
    \<and> (\<forall>r. r \<noteq> self_flow s \<longrightarrow> store s' r = store s r)
    \<and> (\<exists>sample sol.
          py_index (self_noise s) (self_noise_idx s) = Inr sample
          \<and> select_solver iter (apply_control env control (s\<lparr>self_eta := sample\<rparr>)) = Inr sol
          \<and> store s' = store (snd (sub_solver_solve env sol
                (apply_control env control (s\<lparr>self_eta := sample\<rparr>)))))
    \<and> py_index (self_u_prev s') 0 = Inr (fst (flow_q (store s' h)))"
  using assms
proof (cases rule: step_cases)
  case (commit sample sol s3 us)
  let ?s2 = "apply_control env control (s\<lparr>self_eta := sample\<rparr>)"
  have s3: "s3 = snd (sub_solver_solve env sol ?s2)"
    using commit(3) by simp
  have fl: "self_flow s3 = self_flow s"
    unfolding s3 by (simp add: step_frame)
  have h: "h = self_flow s"
    using commit(6) fl by (simp split: if_splits)
  have other: "store s3 r = store s r" if "r \<noteq> self_flow s" for r
    unfolding s3 using that
    by (simp add: sub_solver_solve_store apply_control_store step_frame)
  have newest: "py_index us 0 = Inr (fst (flow_q (store s3 (self_flow s3))))"
    using commit(4) shift_history_length [of "[0 .. self_k s3 - 1 - 1]" "self_u_prev s3"]
    by (auto simp: rotate_history_def py_index_def py_position_def
        split: prod.splits option.splits sum.splits if_splits)
  show ?thesis
    using commit(1,2) h fl other newest s3 unfolding commit(5) by auto
qed auto

theorem step_returns_flow_handle_witness:
  "step demo_env 0 None (demo_solver 2 [7, 7])
     = (Inr 0, snd (step demo_env 0 None (demo_solver 2 [7, 7])))
   \<and> self_flow (demo_solver 2 [7, 7]) = 0
   \<and> self_flow (snd (step demo_env 0 None (demo_solver 2 [7, 7]))) = 0
   \<and> store (snd (step demo_env 0 None (demo_solver 2 [7, 7]))) 1 = store (demo_solver 2 [7, 7]) 1
   \<and> py_index (self_u_prev (snd (step demo_env 0 None (demo_solver 2 [7, 7])))) 0
      = Inr (fst (flow_q (store (snd (step demo_env 0 None (demo_solver 2 [7, 7]))) 0)))"
proof -
  let ?s = "demo_solver 2 [7, 7]"
  have start: "self_flow ?s = 0"
    by (simp add: demo_eval)
  have "fst (step demo_env 0 None ?s) = Inr 0"
    by (simp add: demo_eval numeral_2_eq_2)
  then have ok: "step demo_env 0 None ?s = (Inr 0, snd (step demo_env 0 None ?s))"
    by (simp add: prod_eq_iff)
  show ?thesis
    using step_returns_flow_handle [OF ok] ok start by simp
qed

end
